theory Spec2Isabelle
  imports Main
begin

section \<open>The documentation fetcher \<^verbatim>\<open>fetch_iced_docs.py\<close>\<close>

text \<open>
  The script runs three stages (clone the book, build and convert the API docs, optionally
  fetch the examples), writes an index file and exits with a status code. Everything it
  does goes through external collaborators: \<^verbatim>\<open>git\<close>, \<^verbatim>\<open>cargo\<close>, the file system and
  \<^verbatim>\<open>docs2markdown.convert_directory\<close>. The embedding makes them explicit:
  \<^item> an \<^emph>\<open>environment\<close> fixes, for every call site, what the collaborator answers
    (an exit status, an exception, whether a directory produced by a tool exists,
    which per-file results the converter yields);
  \<^item> a \<^emph>\<open>world\<close> is threaded through the functions: the entries of the output directory
    that the script itself creates and removes, the external calls made so far, and the
    lines printed on the console so far;
  \<^item> an exception that leaves a function is the value \<open>Raised\<close>.
  Strings are byte strings (UTF-8, as the source file is stored).
\<close>

subsection \<open>Paths, calls and console messages\<close>

text \<open>Paths are relative to \<^verbatim>\<open>output_dir\<close>, which is fixed during a run.\<close>

datatype path =
    OutputDir             \<comment> \<open>\<^verbatim>\<open>output_dir\<close>\<close>
  | BookSrc               \<comment> \<open>\<^verbatim>\<open>output_dir / "book-src"\<close>\<close>
  | BookSrcSrc            \<comment> \<open>\<^verbatim>\<open>book_dir / "src"\<close>\<close>
  | Book                  \<comment> \<open>\<^verbatim>\<open>output_dir / "book"\<close>\<close>
  | CargoTemp             \<comment> \<open>\<^verbatim>\<open>output_dir / "cargo-temp"\<close>\<close>
  | CargoToml             \<comment> \<open>\<^verbatim>\<open>temp_dir / "Cargo.toml"\<close>\<close>
  | CargoSrc              \<comment> \<open>\<^verbatim>\<open>temp_dir / "src"\<close>\<close>
  | LibRs                 \<comment> \<open>\<^verbatim>\<open>src_dir / "lib.rs"\<close>\<close>
  | Examples              \<comment> \<open>\<^verbatim>\<open>output_dir / "examples"\<close>\<close>
  | RepoTemp              \<comment> \<open>\<^verbatim>\<open>output_dir / "iced-repo-temp"\<close>\<close>
  | RepoExamples          \<comment> \<open>\<^verbatim>\<open>repo_dir / "examples"\<close>\<close>
  | Readme                \<comment> \<open>\<^verbatim>\<open>output_dir / "README.md"\<close>\<close>

text \<open>
  The calls to collaborators, with the parts that vary. \<open>GitCloneIced (Some tag)\<close> is the
  clone of \<^verbatim>\<open>iced.git\<close> with \<^verbatim>\<open>--branch=tag\<close>, \<open>GitCloneIced None\<close> the one without a branch;
  \<open>CargoDoc crates\<close> is \<^verbatim>\<open>cargo doc --no-deps\<close> with one \<^verbatim>\<open>--package=\<close> argument per crate;
  \<open>ConvertDirectory crate\<close> is \<^verbatim>\<open>convert_directory\<close> on the doc directory of \<open>crate\<close>.
\<close>

datatype call =
    Mkdir path
  | CopyTree path path
  | RmTree path
  | WriteText path string
  | GitCloneBook
  | GitCloneIced "string option"
  | GitSparseCheckout
  | CargoDoc "string list"
  | ConvertDirectory string

text \<open>
  One constructor per \<^verbatim>\<open>console.print\<close> of the source, in source order, with the values
  the script itself computes; text that comes from a collaborator (an exception's
  message, the standard error of \<^verbatim>\<open>cargo\<close>) and the output path are left out.
\<close>

datatype message =
    MsgCloningBook
  | MsgBookCopied
  | MsgBookSourceNotFound
  | MsgFailedToCloneBook
  | MsgErrorProcessingBook
  | MsgBuildingDocs "string list"
  | MsgRunningCargoDoc
  | MsgCargoDocFailed
  | MsgDocDirNotFound
  | MsgDocsBuilt
  | MsgFailedToBuild
  | MsgNoDocsFound string
  | MsgConverting string
  | MsgFailedToConvertFile string
  | MsgNoFilesConverted string
  | MsgConverted int string
  | MsgFilesFailed int
  | MsgFailedToConvertDocs string
  | MsgCloningExamples
  | MsgTagNotFound string
  | MsgExamplesCopied
  | MsgNoExamplesFound
  | MsgFailedToFetchExamples
  | MsgCreatedIndex
  | MsgFetching string
  | MsgOutputDirectory
  | MsgWarnFailedToConvert string
  | MsgCleaningUp
  | MsgSummary
  | MsgCompleted int int
  | MsgOutput
  | MsgAllFetched
  | MsgYouCanNow
  | MsgSeeReadme
  | MsgTasksFailed int

subsection \<open>The environment\<close>

text \<open>
  \<open>io\<close>: a file-system operation works or raises (\<^verbatim>\<open>OSError\<close>).
  \<open>run\<close>: \<^verbatim>\<open>subprocess.run\<close> returns with an exit status or raises because the
  program could not be started. With \<^verbatim>\<open>check=True\<close> a non-zero status raises
  \<^verbatim>\<open>CalledProcessError\<close>; the functions below write that case out.
\<close>

datatype io = IoOk | IoError

datatype run = Exited int | SpawnError

text \<open>
  \<^verbatim>\<open>convert_directory\<close> yields pairs of an input file and a result that is either a path
  or an exception object.
\<close>

datatype conv_result = ConvPath | ConvException

type_synonym conv_item = "string \<times> conv_result"

record env =
  e_mkdir_output :: io
  e_clone_book :: run
  e_book_has_src :: bool      \<comment> \<open>\<^verbatim>\<open>src_dir.exists()\<close> in the cloned book\<close>
  e_copy_book :: io
  e_rm_book_src :: io
  e_mkdir_cargo_temp :: io
  e_write_cargo_toml :: io
  e_mkdir_cargo_src :: io
  e_write_lib_rs :: io
  e_cargo_doc :: run
  e_cargo_has_doc_dir :: bool \<comment> \<open>\<^verbatim>\<open>doc_dir.exists()\<close> after \<^verbatim>\<open>cargo doc\<close>\<close>
  e_crate_has_docs :: "string \<Rightarrow> bool"
                              \<comment> \<open>\<^verbatim>\<open>doc_dir.exists()\<close> for one crate\<close>
  e_convert_directory :: "string \<Rightarrow> conv_item list \<times> bool"
                              \<comment> \<open>the items yielded for a crate, and whether the
                                  generator raises after them\<close>
  e_rm_cargo_temp :: io
  e_clone_tag :: run
  e_clone_main :: run
  e_sparse_checkout :: run
  e_repo_has_examples :: bool \<comment> \<open>\<^verbatim>\<open>src_examples.exists()\<close> in the cloned repository\<close>
  e_copy_examples :: io
  e_rm_repo :: io
  e_write_readme :: io

subsection \<open>The world\<close>

text \<open>
  \<open>fs\<close> holds the entries of the output directory that exist. An operation that works
  adds its target (\<^verbatim>\<open>mkdir\<close>, \<^verbatim>\<open>git clone\<close>, \<^verbatim>\<open>copytree\<close>, \<^verbatim>\<open>write_text\<close>) or takes it away
  (\<^verbatim>\<open>rmtree\<close>); one that fails leaves \<open>fs\<close> as it was. Whether a directory inside a tree
  made by a tool exists (\<^verbatim>\<open>book-src/src\<close>, \<^verbatim>\<open>cargo-temp/target/doc\<close> and the crate
  directories below it, \<^verbatim>\<open>iced-repo-temp/examples\<close>) is an answer of the environment. The
  \<^verbatim>\<open>-api\<close> trees that \<^verbatim>\<open>convert_directory\<close> writes are not tracked. \<open>calls\<close> lists the
  calls in the order in which they were started, \<open>console\<close> the lines printed.
\<close>

record world =
  fs :: "path set"
  calls :: "call list"
  console :: "message list"

definition say :: "message \<Rightarrow> world \<Rightarrow> world" where
  "say m w = w\<lparr>console := console w @ [m]\<rparr>"

definition did :: "call \<Rightarrow> world \<Rightarrow> world" where
  "did c w = w\<lparr>calls := calls w @ [c]\<rparr>"

definition create :: "path \<Rightarrow> world \<Rightarrow> world" where
  "create p w = w\<lparr>fs := insert p (fs w)\<rparr>"

definition remove :: "path \<Rightarrow> world \<Rightarrow> world" where
  "remove p w = w\<lparr>fs := fs w - {p}\<rparr>"

text \<open>What a function hands back: a value, or an exception that nobody caught.\<close>

datatype 'a outcome = Returned 'a | Raised

subsection \<open>\<^verbatim>\<open>clone_iced_book\<close>\<close>

text \<open>
  The whole body after the first print is inside \<^verbatim>\<open>try\<close>, with handlers for
  \<^verbatim>\<open>CalledProcessError\<close> and for \<^verbatim>\<open>Exception\<close>: nothing is raised to the caller. A clone
  that fails leaves the file system as it was.
\<close>

definition clone_iced_book :: "env \<Rightarrow> world \<Rightarrow> bool \<times> world" where
  "clone_iced_book env w =
    (let w1 = say MsgCloningBook w;
         w2 = did GitCloneBook w1
     in case e_clone_book env of
          SpawnError \<Rightarrow> (False, say MsgErrorProcessingBook w2)
        | Exited rc \<Rightarrow>
            (if rc \<noteq> 0 then (False, say MsgFailedToCloneBook w2)
             else
               (let w3 = create BookSrc w2 in
                if e_book_has_src env then
                  (let w4 = did (CopyTree BookSrcSrc Book) w3 in
                   case e_copy_book env of
                     IoError \<Rightarrow> (False, say MsgErrorProcessingBook w4)
                   | IoOk \<Rightarrow>
                       (let w5 = say MsgBookCopied (create Book w4);
                            w6 = did (RmTree BookSrc) w5
                        in (case e_rm_book_src env of
                              IoError \<Rightarrow> (False, say MsgErrorProcessingBook w6)
                            | IoOk \<Rightarrow> (True, remove BookSrc w6))))
                else (False, say MsgBookSourceNotFound w3))))"

subsection \<open>\<^verbatim>\<open>build_cargo_docs\<close>\<close>

definition join_lines :: "string list \<Rightarrow> string" where
  "join_lines xs = (case xs of [] \<Rightarrow> [] | y # ys \<Rightarrow> y @ concat (map (\<lambda>l. CHR 0x0A # l) ys))"

text \<open>The list \<^verbatim>\<open>deps\<close>: the first entry always, the second appended on membership.\<close>

definition cargo_deps :: "string list \<Rightarrow> string \<Rightarrow> string \<Rightarrow> string list" where
  \<open>cargo_deps crate_names ver layershell_ver =
     [''iced = "'' @ ver @ ''"''] @
     (if ''iced_layershell'' \<in> set crate_names
      then [''iced_layershell = "'' @ layershell_ver @ ''"'']
      else [])\<close>

definition cargo_toml_preamble :: string where
  \<open>cargo_toml_preamble =
     ''[package]\<newline>'' @
     ''name = "iced-docs"\<newline>'' @
     ''version = "0.1.0"\<newline>'' @
     ''edition = "2021"\<newline>'' @
     ''\<newline>'' @
     ''[dependencies]\<newline>''\<close>

definition cargo_toml_text :: "string list \<Rightarrow> string \<Rightarrow> string \<Rightarrow> string" where
  "cargo_toml_text crate_names ver layershell_ver =
     cargo_toml_preamble @ join_lines (cargo_deps crate_names ver layershell_ver) @ ''\<newline>''"

text \<open>
  \<^verbatim>\<open>temp_dir.mkdir\<close> comes before the \<^verbatim>\<open>try\<close>: if it raises, the exception leaves the
  function. Everything after it is caught by \<^verbatim>\<open>except Exception\<close>.
\<close>

definition build_cargo_docs ::
  "env \<Rightarrow> string list \<Rightarrow> string \<Rightarrow> string \<Rightarrow> world \<Rightarrow> bool outcome \<times> world" where
  "build_cargo_docs env crate_names ver layershell_ver w =
    (let w1 = did (Mkdir CargoTemp) w in
     case e_mkdir_cargo_temp env of
       IoError \<Rightarrow> (Raised, w1)
     | IoOk \<Rightarrow>
        (let w2 = say (MsgBuildingDocs crate_names) (create CargoTemp w1);
             w3 = did (WriteText CargoToml (cargo_toml_text crate_names ver layershell_ver)) w2
         in (case e_write_cargo_toml env of
               IoError \<Rightarrow> (Returned False, say MsgFailedToBuild w3)
             | IoOk \<Rightarrow>
                (let w4 = did (Mkdir CargoSrc) w3 in
                 (case e_mkdir_cargo_src env of
                    IoError \<Rightarrow> (Returned False, say MsgFailedToBuild w4)
                  | IoOk \<Rightarrow>
                     (let w5 = did (WriteText LibRs []) w4 in
                      (case e_write_lib_rs env of
                         IoError \<Rightarrow> (Returned False, say MsgFailedToBuild w5)
                       | IoOk \<Rightarrow>
                          (let w6 = did (CargoDoc crate_names) (say MsgRunningCargoDoc w5) in
                           (case e_cargo_doc env of
                              SpawnError \<Rightarrow> (Returned False, say MsgFailedToBuild w6)
                            | Exited rc \<Rightarrow>
                               (if rc \<noteq> 0 then (Returned False, say MsgCargoDocFailed w6)
                                else if \<not> e_cargo_has_doc_dir env
                                then (Returned False, say MsgDocDirNotFound w6)
                                else (Returned True, say MsgDocsBuilt w6)))))))))))"

subsection \<open>\<^verbatim>\<open>convert_cargo_docs\<close>\<close>

text \<open>
  The \<^verbatim>\<open>for\<close> loop over the yielded items, with the two counters and the console as its
  state: an exception object prints a warning and counts as an error, anything else
  counts as a success, and the loop goes on to the next item either way.
\<close>

fun convert_loop :: "conv_item list \<Rightarrow> int \<Rightarrow> int \<Rightarrow> world \<Rightarrow> int \<times> int \<times> world" where
  "convert_loop [] success_count error_count w = (success_count, error_count, w)"
| "convert_loop ((input_file, result) # rest) success_count error_count w =
    (if result = ConvException
     then convert_loop rest success_count (error_count + 1)
            (say (MsgFailedToConvertFile input_file) w)
     else convert_loop rest (success_count + 1) error_count w)"

text \<open>
  The check of \<^verbatim>\<open>doc_dir\<close> is before the \<^verbatim>\<open>try\<close>; the loop and the verdict are inside it,
  with \<^verbatim>\<open>except Exception\<close>. When the generator raises, the items it yielded before have
  been through the loop body.
\<close>

definition convert_cargo_docs :: "env \<Rightarrow> string \<Rightarrow> world \<Rightarrow> bool \<times> world" where
  "convert_cargo_docs env crate w =
    (if \<not> e_crate_has_docs env crate then (False, say (MsgNoDocsFound crate) w)
     else
       let w1 = did (ConvertDirectory crate) (say (MsgConverting crate) w) in
       case e_convert_directory env crate of
         (items, raises) \<Rightarrow>
           (case convert_loop items 0 0 w1 of
              (success_count, error_count, w2) \<Rightarrow>
                if raises then (False, say (MsgFailedToConvertDocs crate) w2)
                else if success_count = 0 then (False, say (MsgNoFilesConverted crate) w2)
                else
                  let w3 = say (MsgConverted success_count crate) w2 in
                  (True, if error_count > 0 then say (MsgFilesFailed error_count) w3 else w3)))"

subsection \<open>\<^verbatim>\<open>fetch_examples\<close>\<close>

definition tag_of :: "string \<Rightarrow> string" where
  "tag_of ver = (if \<not> (take 1 ver = ''v'') then ''v'' @ ver else ver)"

text \<open>
  The handler of \<^verbatim>\<open>CalledProcessError\<close>, the only one this function has.
  \<^verbatim>\<open>rmtree\<close> with \<^verbatim>\<open>ignore_errors=True\<close> removes the directory if it can and never raises.
\<close>

definition rmtree_ignore_errors :: "env \<Rightarrow> world \<Rightarrow> world" where
  "rmtree_ignore_errors env w =
    (let w1 = did (RmTree RepoTemp) w in
     case e_rm_repo env of IoOk \<Rightarrow> remove RepoTemp w1 | IoError \<Rightarrow> w1)"

definition fetch_examples_except :: "env \<Rightarrow> world \<Rightarrow> bool outcome \<times> world" where
  "fetch_examples_except env w =
    (let w1 = say MsgFailedToFetchExamples w in
     (Returned False, if RepoTemp \<in> fs w1 then rmtree_ignore_errors env w1 else w1))"

text \<open>
  The part of the \<^verbatim>\<open>try\<close> body after the clone: the sparse checkout (\<^verbatim>\<open>check=True\<close>), the
  copy and the clean-up. An exception of \<^verbatim>\<open>copytree\<close> or of the first \<^verbatim>\<open>rmtree\<close> is no
  \<^verbatim>\<open>CalledProcessError\<close> and leaves the function.
\<close>

definition fetch_examples_checkout :: "env \<Rightarrow> world \<Rightarrow> bool outcome \<times> world" where
  "fetch_examples_checkout env w =
    (let w1 = did GitSparseCheckout w in
     case e_sparse_checkout env of
       SpawnError \<Rightarrow> (Raised, w1)
     | Exited rc \<Rightarrow>
        (if rc \<noteq> 0 then fetch_examples_except env w1
         else if e_repo_has_examples env then
           (let w2 = did (CopyTree RepoExamples Examples) w1 in
            case e_copy_examples env of
              IoError \<Rightarrow> (Raised, w2)
            | IoOk \<Rightarrow>
               (let w3 = say MsgExamplesCopied (create Examples w2);
                    w4 = did (RmTree RepoTemp) w3
                in (case e_rm_repo env of
                      IoError \<Rightarrow> (Raised, w4)
                    | IoOk \<Rightarrow> (Returned True, remove RepoTemp w4))))
         else (Returned False, rmtree_ignore_errors env (say MsgNoExamplesFound w1))))"

text \<open>
  The first clone runs without \<^verbatim>\<open>check\<close>: its status is inspected. The second one, made
  only when the first status is not zero, runs with \<^verbatim>\<open>check=True\<close>.
\<close>

definition fetch_examples :: "env \<Rightarrow> string \<Rightarrow> world \<Rightarrow> bool outcome \<times> world" where
  "fetch_examples env ver w =
    (let w1 = say MsgCloningExamples w;
         tag = tag_of ver;
         w2 = did (GitCloneIced (Some tag)) w1
     in case e_clone_tag env of
          SpawnError \<Rightarrow> (Raised, w2)
        | Exited rc \<Rightarrow>
           (if rc \<noteq> 0 then
              (let w3 = did (GitCloneIced None) (say (MsgTagNotFound tag) w2) in
               case e_clone_main env of
                 SpawnError \<Rightarrow> (Raised, w3)
               | Exited rc2 \<Rightarrow>
                  (if rc2 \<noteq> 0 then fetch_examples_except env w3
                   else fetch_examples_checkout env (create RepoTemp w3)))
            else fetch_examples_checkout env (create RepoTemp w2)))"

subsection \<open>\<^verbatim>\<open>create_index\<close>\<close>

definition index_header :: string where
  \<open>index_header =
     ''# Iced Framework Documentation\<newline>'' @
     ''\<newline>'' @
     ''This directory contains comprehensive documentation for the Iced GUI framework, converted to LLM-friendly markdown format.\<newline>'' @
     ''\<newline>'' @
     ''## Contents\<newline>'' @
     ''\<newline>'' @
     ''### '' @ [CHR 0xC3, CHR 0xB0, CHR 0xC5, CHR 0xB8, CHR 0xE2, CHR 0x80, CHR 0x9C, CHR 0xC5, CHR 0xA1] @ '' Book\<newline>'' @
     ''- `book/` - The official Iced book with tutorials and guides\<newline>'' @
     ''  - Start here for conceptual understanding and examples\<newline>'' @
     ''\<newline>'' @
     ''### '' @ [CHR 0xC3, CHR 0xB0, CHR 0xC5, CHR 0xB8, CHR 0xE2, CHR 0x80, CHR 0x9C, CHR 0xE2, CHR 0x80, CHR 0x93] @ '' API Documentation\<newline>''\<close>

definition index_crate_line :: "string \<Rightarrow> string" where
  \<open>index_crate_line crate =
     ''- `'' @ crate @ ''-api/` - API reference for the `'' @ crate @ ''` crate\<newline>''\<close>

definition index_examples :: string where
  \<open>index_examples =
     ''\<newline>'' @
     ''### '' @ [CHR 0xC3, CHR 0xB0, CHR 0xC5, CHR 0xB8, CHR 0xE2, CHR 0x80, CHR 0x99, CHR 0xC2, CHR 0xA1] @ '' Examples\<newline>'' @
     ''- `examples/` - Real-world example code from the Iced repository\<newline>'' @
     ''  - See practical implementations of Iced patterns\<newline>''\<close>

definition index_footer :: string where
  \<open>index_footer =
     ''\<newline>'' @
     ''## Using with LLMs\<newline>'' @
     ''\<newline>'' @
     ''When prompting an LLM about Iced, you can:\<newline>'' @
     ''\<newline>'' @
     ''1. Reference specific sections: "See book/overview.md for architecture"\<newline>'' @
     ''2. Include API docs: "Check iced-api/widget/ for available widgets"\<newline>'' @
     ''3. Point to examples: "Look at examples/counter.rs for a simple app"\<newline>'' @
     ''\<newline>'' @
     ''The documentation is in `llmstxt` format, optimized for LLM comprehension.\<newline>'' @
     ''\<newline>'' @
     ''## Tips for Conversion\<newline>'' @
     ''\<newline>'' @
     ''- **Elm Architecture**: Iced follows The Elm Architecture (TEA)\<newline>'' @
     ''- **State Management**: Application state in a single struct\<newline>'' @
     ''- **Messages**: User interactions trigger messages\<newline>'' @
     ''- **Update Function**: Messages update state\<newline>'' @
     ''- **View Function**: State renders to widgets\<newline>'' @
     ''- **Subscriptions**: Async events (timers, streams)\<newline>'' @
     ''\<newline>'' @
     ''## Key Modules\<newline>'' @
     ''\<newline>'' @
     ''- `iced::widget` - Built-in widgets (button, text, container, etc.)\<newline>'' @
     ''- `iced::application` - Main application trait\<newline>'' @
     ''- `iced::executor` - Async runtime\<newline>'' @
     ''- `iced::Theme` - Styling system\<newline>''\<close>

text \<open>The text of the index: the \<^verbatim>\<open>for\<close> loop appends one line per crate.\<close>

definition index_content :: "string list \<Rightarrow> bool \<Rightarrow> string" where
  "index_content crate_names has_examples =
     index_header @ concat (map index_crate_line crate_names) @
     (if has_examples then index_examples else []) @ index_footer"

text \<open>No \<^verbatim>\<open>try\<close> here: an exception of \<^verbatim>\<open>write_text\<close> leaves the function.\<close>

definition create_index :: "env \<Rightarrow> string list \<Rightarrow> bool \<Rightarrow> world \<Rightarrow> unit outcome \<times> world" where
  "create_index env crate_names has_examples w =
    (let w1 = did (WriteText Readme (index_content crate_names has_examples)) w in
     case e_write_readme env of
       IoError \<Rightarrow> (Raised, w1)
     | IoOk \<Rightarrow> (Returned (), say MsgCreatedIndex (create Readme w1)))"

subsection \<open>\<^verbatim>\<open>main\<close>\<close>

record args =
  arg_version :: string
  arg_layershell_version :: string
  arg_include_examples :: bool
  arg_crates :: "string list"

text \<open>The loop over the crates inside step 2: a failed conversion prints a warning.\<close>

fun convert_crates :: "env \<Rightarrow> string list \<Rightarrow> world \<Rightarrow> world" where
  "convert_crates env [] w = w"
| "convert_crates env (crate # rest) w =
    (case convert_cargo_docs env crate w of
       (ok, w1) \<Rightarrow>
         convert_crates env rest (if \<not> ok then say (MsgWarnFailedToConvert crate) w1 else w1))"

text \<open>The summary and the exit: \<open>Returned c\<close> stands for \<^verbatim>\<open>raise typer.Exit(c)\<close>.\<close>

definition main_summary :: "int \<Rightarrow> int \<Rightarrow> world \<Rightarrow> int outcome \<times> world" where
  "main_summary success_count total_tasks w =
    (let w1 = say MsgOutput (say (MsgCompleted success_count total_tasks) (say MsgSummary w)) in
     if success_count = total_tasks
     then (Returned 0, say MsgSeeReadme (say MsgYouCanNow (say MsgAllFetched w1)))
     else (Returned 1, say (MsgTasksFailed (total_tasks - success_count)) w1))"

text \<open>Steps 3 and 4 and the summary.\<close>

definition main_examples_index ::
  "env \<Rightarrow> args \<Rightarrow> int \<Rightarrow> int \<Rightarrow> world \<Rightarrow> int outcome \<times> world" where
  "main_examples_index env a success_count total_tasks w =
    (case (if arg_include_examples a
           then (case fetch_examples env (arg_version a) w of
                   (Raised, w1) \<Rightarrow> (Raised, w1)
                 | (Returned ok, w1) \<Rightarrow>
                     (Returned (if ok then success_count + 1 else success_count), w1))
           else (Returned success_count, w)) of
       (Raised, w1) \<Rightarrow> (Raised, w1)
     | (Returned success_count1, w1) \<Rightarrow>
         (case create_index env (arg_crates a) (arg_include_examples a) w1 of
            (Raised, w2) \<Rightarrow> (Raised, w2)
          | (Returned u, w2) \<Rightarrow> main_summary success_count1 total_tasks w2))"

text \<open>
  Steps 1 and 2. The clean-up of \<^verbatim>\<open>cargo-temp\<close> is inside the branch of a successful
  build; its \<^verbatim>\<open>rmtree\<close> is not guarded.
\<close>

definition main :: "env \<Rightarrow> args \<Rightarrow> world \<Rightarrow> int outcome \<times> world" where
  "main env a w =
    (let w1 = did (Mkdir OutputDir) w in
     case e_mkdir_output env of
       IoError \<Rightarrow> (Raised, w1)
     | IoOk \<Rightarrow>
        (let w2 = say MsgOutputDirectory (say (MsgFetching (arg_version a)) (create OutputDir w1));
             success_count = 0;
             total_tasks = 2 + (if arg_include_examples a then 1 else 0)
         in (case clone_iced_book env w2 of
               (book_ok, w3) \<Rightarrow>
                 (let success_count1 = (if book_ok then success_count + 1 else success_count) in
                  (case build_cargo_docs env (arg_crates a) (arg_version a)
                          (arg_layershell_version a) w3 of
                     (Raised, w4) \<Rightarrow> (Raised, w4)
                   | (Returned built, w4) \<Rightarrow>
                      (if built then
                         (let w5 = convert_crates env (arg_crates a) w4;
                              success_count2 = success_count1 + 1
                          in if CargoTemp \<in> fs w5 then
                               (let w6 = did (RmTree CargoTemp) (say MsgCleaningUp w5) in
                                case e_rm_cargo_temp env of
                                  IoError \<Rightarrow> (Raised, w6)
                                | IoOk \<Rightarrow>
                                    main_examples_index env a success_count2 total_tasks
                                      (remove CargoTemp w6))
                             else main_examples_index env a success_count2 total_tasks w5)
                       else main_examples_index env a success_count1 total_tasks w4))))))"

subsection \<open>What a run shows\<close>

text \<open>
  The script keeps no record of its stages besides the counter \<^verbatim>\<open>success_count\<close>: what a
  run reports is what it prints. The functions below read a console or a list of calls.
\<close>

text \<open>The clones of \<^verbatim>\<open>iced.git\<close> among a list of calls, each with its branch.\<close>

definition clone_attempts :: "call list \<Rightarrow> string option list" where
  "clone_attempts cs = [b. GitCloneIced b \<leftarrow> cs]"

text \<open>The crates on which \<^verbatim>\<open>convert_directory\<close> was called.\<close>

definition convert_calls :: "call list \<Rightarrow> string list" where
  "convert_calls cs = [crate. ConvertDirectory crate \<leftarrow> cs]"

text \<open>
  The verdict on the conversion of a crate: the line of success that
  \<^verbatim>\<open>convert_cargo_docs\<close> prints before it returns \<^verbatim>\<open>True\<close>, or the warning that \<^verbatim>\<open>main\<close>
  prints when it returned \<^verbatim>\<open>False\<close>.
\<close>

fun unit_outcome :: "message \<Rightarrow> (string \<times> bool) list" where
  "unit_outcome (MsgConverted n crate) = [(crate, True)]"
| "unit_outcome (MsgWarnFailedToConvert crate) = [(crate, False)]"
| "unit_outcome m = []"

definition unit_outcomes :: "message list \<Rightarrow> (string \<times> bool) list" where
  "unit_outcomes ms = concat (map unit_outcome ms)"

text \<open>Every line that is about the conversion of one crate, with that crate.\<close>

fun conversion_line :: "message \<Rightarrow> string list" where
  "conversion_line (MsgNoDocsFound crate) = [crate]"
| "conversion_line (MsgConverting crate) = [crate]"
| "conversion_line (MsgNoFilesConverted crate) = [crate]"
| "conversion_line (MsgConverted n crate) = [crate]"
| "conversion_line (MsgFailedToConvertDocs crate) = [crate]"
| "conversion_line (MsgWarnFailedToConvert crate) = [crate]"
| "conversion_line m = []"

definition conversion_lines :: "message list \<Rightarrow> string list" where
  "conversion_lines ms = concat (map conversion_line ms)"

subsection \<open>Concrete runs\<close>

definition world_empty :: world where
  "world_empty = \<lparr>fs = {}, calls = [], console = []\<rparr>"

text \<open>The defaults of the command line.\<close>

definition args_default :: args where
  "args_default =
     \<lparr>arg_version = ''0.13.1'', arg_layershell_version = ''0.13.7'',
      arg_include_examples = False,
      arg_crates = [''iced'', ''iced_core'', ''iced_widget'', ''iced_runtime'', ''iced_layershell'']\<rparr>"

definition args_with_examples :: args where
  "args_with_examples = args_default\<lparr>arg_include_examples := True\<rparr>"

text \<open>
  An environment in which every collaborator works; the converter yields three files
  for every crate, one of which fails to convert.
\<close>

definition items_sample :: "conv_item list" where
  "items_sample =
     [(''index.html'', ConvPath), (''all.html'', ConvPath), (''broken.html'', ConvException)]"

definition env_all_ok :: env where
  "env_all_ok =
     \<lparr>e_mkdir_output = IoOk, e_clone_book = Exited 0, e_book_has_src = True,
      e_copy_book = IoOk, e_rm_book_src = IoOk, e_mkdir_cargo_temp = IoOk,
      e_write_cargo_toml = IoOk, e_mkdir_cargo_src = IoOk, e_write_lib_rs = IoOk,
      e_cargo_doc = Exited 0, e_cargo_has_doc_dir = True,
      e_crate_has_docs = (\<lambda>crate. True),
      e_convert_directory = (\<lambda>crate. (items_sample, False)),
      e_rm_cargo_temp = IoOk, e_clone_tag = Exited 0, e_clone_main = Exited 0,
      e_sparse_checkout = Exited 0, e_repo_has_examples = True, e_copy_examples = IoOk,
      e_rm_repo = IoOk, e_write_readme = IoOk\<rparr>"

text \<open>\<^verbatim>\<open>cargo doc\<close> exits with status 101.\<close>

definition env_cargo_doc_fails :: env where
  "env_cargo_doc_fails = env_all_ok\<lparr>e_cargo_doc := Exited 101\<rparr>"

text \<open>\<^verbatim>\<open>cargo doc\<close> exits with status 0 and leaves no \<^verbatim>\<open>target/doc\<close>.\<close>

definition env_no_doc_dir :: env where
  "env_no_doc_dir = env_all_ok\<lparr>e_cargo_has_doc_dir := False\<rparr>"

text \<open>The build works and leaves no documentation for \<^verbatim>\<open>iced_layershell\<close>.\<close>

definition env_layershell_undocumented :: env where
  "env_layershell_undocumented =
     env_all_ok\<lparr>e_crate_has_docs := (\<lambda>crate. crate \<noteq> ''iced_layershell'')\<rparr>"

text \<open>The tag is not at the remote, and the clone of the default branch fails too.\<close>

definition env_clones_fail :: env where
  "env_clones_fail = env_all_ok\<lparr>e_clone_tag := Exited 128, e_clone_main := Exited 128\<rparr>"

text \<open>The tag is not at the remote; the clone of the default branch works.\<close>

definition env_tag_missing :: env where
  "env_tag_missing = env_all_ok\<lparr>e_clone_tag := Exited 128\<rparr>"

text \<open>\<^verbatim>\<open>shutil.copytree\<close> of the examples raises (say, the disk is full).\<close>

definition env_copy_examples_raises :: env where
  "env_copy_examples_raises = env_all_ok\<lparr>e_copy_examples := IoError\<rparr>"

text \<open>The clone of the book works, and the clone has no \<^verbatim>\<open>src\<close> directory.\<close>

definition env_book_without_src :: env where
  "env_book_without_src = env_all_ok\<lparr>e_book_has_src := False\<rparr>"

text \<open>\<^verbatim>\<open>cargo doc\<close> exits with status 101 and no crate has a doc directory.\<close>

definition env_nothing_built :: env where
  "env_nothing_built = env_cargo_doc_fails\<lparr>e_crate_has_docs := (\<lambda>crate. False)\<rparr>"

section \<open>Basic facts\<close>

subsection \<open>The world after one step\<close>

lemma say_simps [simp]:
  "console (say m w) = console w @ [m]" "calls (say m w) = calls w" "fs (say m w) = fs w"
  by (simp_all add: say_def)

lemma did_simps [simp]:
  "console (did c w) = console w" "calls (did c w) = calls w @ [c]" "fs (did c w) = fs w"
  by (simp_all add: did_def)

lemma create_simps [simp]:
  "console (create p w) = console w" "calls (create p w) = calls w"
  "fs (create p w) = insert p (fs w)"
  by (simp_all add: create_def)

lemma remove_simps [simp]:
  "console (remove p w) = console w" "calls (remove p w) = calls w"
  "fs (remove p w) = fs w - {p}"
  by (simp_all add: remove_def)

subsection \<open>Reading consoles and call lists piece by piece\<close>

lemma clone_attempts_simps [simp]:
  "clone_attempts [] = []"
  "clone_attempts (xs @ ys) = clone_attempts xs @ clone_attempts ys"
  "clone_attempts (c # cs) =
     (case c of GitCloneIced b \<Rightarrow> [b] | _ \<Rightarrow> []) @ clone_attempts cs"
  by (simp_all add: clone_attempts_def)

lemma convert_calls_simps [simp]:
  "convert_calls [] = []"
  "convert_calls (xs @ ys) = convert_calls xs @ convert_calls ys"
  "convert_calls (c # cs) =
     (case c of ConvertDirectory b \<Rightarrow> [b] | _ \<Rightarrow> []) @ convert_calls cs"
  by (simp_all add: convert_calls_def)

lemma unit_outcomes_simps [simp]:
  "unit_outcomes [] = []"
  "unit_outcomes (xs @ ys) = unit_outcomes xs @ unit_outcomes ys"
  "unit_outcomes (m # ms) = unit_outcome m @ unit_outcomes ms"
  by (simp_all add: unit_outcomes_def)

lemma conversion_lines_simps [simp]:
  "conversion_lines [] = []"
  "conversion_lines (xs @ ys) = conversion_lines xs @ conversion_lines ys"
  "conversion_lines (m # ms) = conversion_line m @ conversion_lines ms"
  by (simp_all add: conversion_lines_def)

subsection \<open>The loop of \<^verbatim>\<open>convert_cargo_docs\<close> in closed form\<close>

lemma convert_loop_result:
  "convert_loop items s e w =
     (s + int (length (filter (\<lambda>i. snd i \<noteq> ConvException) items)),
      e + int (length (filter (\<lambda>i. snd i = ConvException) items)),
      w\<lparr>console := console w @
           map (\<lambda>i. MsgFailedToConvertFile (fst i))
             (filter (\<lambda>i. snd i = ConvException) items)\<rparr>)"
  by (induction items s e w rule: convert_loop.induct) (simp_all add: say_def)

lemma file_warnings_no_outcome [simp]:
  "unit_outcomes (map (\<lambda>i. MsgFailedToConvertFile (fst i)) xs) = []"
  "conversion_lines (map (\<lambda>i. MsgFailedToConvertFile (fst i)) xs) = []"
  by (induction xs) auto

subsection \<open>What each stage leaves untouched, and when it succeeds\<close>

lemma clone_iced_book_frame [simp]:
  "unit_outcomes (console (snd (clone_iced_book env w))) = unit_outcomes (console w)"
  "conversion_lines (console (snd (clone_iced_book env w))) = conversion_lines (console w)"
  "convert_calls (calls (snd (clone_iced_book env w))) = convert_calls (calls w)"
  by (simp_all add: clone_iced_book_def Let_def split: run.splits io.splits)

lemma clone_iced_book_ok:
  "fst (clone_iced_book env w) \<longleftrightarrow>
     e_clone_book env = Exited 0 \<and> e_book_has_src env \<and> e_copy_book env = IoOk \<and>
     e_rm_book_src env = IoOk"
  by (simp add: clone_iced_book_def Let_def split: run.splits io.splits)

lemma build_cargo_docs_frame [simp]:
  "unit_outcomes (console (snd (build_cargo_docs env C v lv w))) = unit_outcomes (console w)"
  "conversion_lines (console (snd (build_cargo_docs env C v lv w))) =
     conversion_lines (console w)"
  "convert_calls (calls (snd (build_cargo_docs env C v lv w))) = convert_calls (calls w)"
  by (simp_all add: build_cargo_docs_def Let_def split: run.splits io.splits)

lemma build_cargo_docs_result:
  "fst (build_cargo_docs env C v lv w) =
     (if e_mkdir_cargo_temp env = IoError then Raised
      else Returned (e_write_cargo_toml env = IoOk \<and> e_mkdir_cargo_src env = IoOk \<and>
        e_write_lib_rs env = IoOk \<and> e_cargo_doc env = Exited 0 \<and> e_cargo_has_doc_dir env))"
  by (simp add: build_cargo_docs_def Let_def split: run.splits io.splits)

lemma convert_cargo_docs_ok:
  "fst (convert_cargo_docs env crate w) \<longleftrightarrow>
     e_crate_has_docs env crate \<and> \<not> snd (e_convert_directory env crate) \<and>
     filter (\<lambda>i. snd i \<noteq> ConvException) (fst (e_convert_directory env crate)) \<noteq> []"
  by (simp add: convert_cargo_docs_def convert_loop_result Let_def split_def)

lemma convert_cargo_docs_outcome:
  "unit_outcomes (console (snd (convert_cargo_docs env crate w))) =
     unit_outcomes (console w) @
     (if fst (convert_cargo_docs env crate w) then [(crate, True)] else [])"
  by (simp add: convert_cargo_docs_def convert_loop_result Let_def split_def)

lemma convert_crates_outcomes:
  "unit_outcomes (console (convert_crates env cs w)) =
     unit_outcomes (console w) @
     map (\<lambda>crate. (crate, fst (convert_cargo_docs env crate wx))) cs"
proof (induction cs arbitrary: w)
  case Nil
  show ?case by simp
next
  case (Cons crate rest)
  have same: "fst (convert_cargo_docs env crate w) = fst (convert_cargo_docs env crate wx)"
    by (simp add: convert_cargo_docs_ok)
  show ?case
    by (simp add: Cons.IH split_def convert_cargo_docs_outcome same)
qed

lemma rmtree_ignore_errors_simps [simp]:
  "console (rmtree_ignore_errors env w) = console w"
  "calls (rmtree_ignore_errors env w) = calls w @ [RmTree RepoTemp]"
  by (simp_all add: rmtree_ignore_errors_def Let_def split: io.splits)

lemma fetch_examples_except_frame [simp]:
  "unit_outcomes (console (snd (fetch_examples_except env w))) = unit_outcomes (console w)"
  "conversion_lines (console (snd (fetch_examples_except env w))) =
     conversion_lines (console w)"
  "convert_calls (calls (snd (fetch_examples_except env w))) = convert_calls (calls w)"
  "clone_attempts (calls (snd (fetch_examples_except env w))) = clone_attempts (calls w)"
  by (simp_all add: fetch_examples_except_def Let_def)

lemma fetch_examples_checkout_frame [simp]:
  "unit_outcomes (console (snd (fetch_examples_checkout env w))) = unit_outcomes (console w)"
  "conversion_lines (console (snd (fetch_examples_checkout env w))) =
     conversion_lines (console w)"
  "convert_calls (calls (snd (fetch_examples_checkout env w))) = convert_calls (calls w)"
  "clone_attempts (calls (snd (fetch_examples_checkout env w))) = clone_attempts (calls w)"
  by (simp_all add: fetch_examples_checkout_def Let_def split: run.splits io.splits)

lemma fetch_examples_frame [simp]:
  "unit_outcomes (console (snd (fetch_examples env v w))) = unit_outcomes (console w)"
  "conversion_lines (console (snd (fetch_examples env v w))) = conversion_lines (console w)"
  "convert_calls (calls (snd (fetch_examples env v w))) = convert_calls (calls w)"
  by (simp_all add: fetch_examples_def Let_def split: run.splits io.splits)

lemma fetch_examples_except_fst [simp]:
  "fst (fetch_examples_except env w) = Returned False"
  by (simp add: fetch_examples_except_def Let_def)

lemma fetch_examples_checkout_fst:
  "fst (fetch_examples_checkout env w) = fst (fetch_examples_checkout env w')"
  by (simp add: fetch_examples_checkout_def Let_def split: run.splits io.splits)

lemma fetch_examples_fst:
  "fst (fetch_examples env v w) = fst (fetch_examples env v w')"
  using fetch_examples_checkout_fst
  by (simp add: fetch_examples_def Let_def split: run.splits io.splits)

lemma create_index_frame [simp]:
  "unit_outcomes (console (snd (create_index env C h w))) = unit_outcomes (console w)"
  "conversion_lines (console (snd (create_index env C h w))) = conversion_lines (console w)"
  "convert_calls (calls (snd (create_index env C h w))) = convert_calls (calls w)"
  "calls (snd (create_index env C h w)) = calls w @ [WriteText Readme (index_content C h)]"
  by (simp_all add: create_index_def Let_def split: io.splits)

lemma create_index_readme:
  "fst (create_index env C h w) = Returned u \<Longrightarrow> Readme \<in> fs (snd (create_index env C h w))"
  by (simp add: create_index_def Let_def split: io.splits)

lemma main_summary_frame [simp]:
  "unit_outcomes (console (snd (main_summary sc tt w))) = unit_outcomes (console w)"
  "conversion_lines (console (snd (main_summary sc tt w))) = conversion_lines (console w)"
  "calls (snd (main_summary sc tt w)) = calls w"
  "fs (snd (main_summary sc tt w)) = fs w"
  by (simp_all add: main_summary_def Let_def)

lemma main_summary_fst [simp]:
  "fst (main_summary sc tt w) = Returned (if sc = tt then 0 else 1)"
  by (simp add: main_summary_def Let_def)

lemma main_summary_console:
  "MsgCompleted sc tt \<in> set (console (snd (main_summary sc tt w)))"
  by (simp add: main_summary_def Let_def)

subsection \<open>The tail of \<^verbatim>\<open>main\<close>\<close>

lemma main_examples_index_frame [simp]:
  "unit_outcomes (console (snd (main_examples_index env a sc tt w))) =
     unit_outcomes (console w)"
  "conversion_lines (console (snd (main_examples_index env a sc tt w))) =
     conversion_lines (console w)"
  "convert_calls (calls (snd (main_examples_index env a sc tt w))) = convert_calls (calls w)"
  by (simp_all add: main_examples_index_def split_def split: outcome.splits)

lemma main_examples_index_exit:
  assumes "fst (main_examples_index env a sc tt w) = Returned c"
  shows "c = (if sc + (if arg_include_examples a \<and>
                 fst (fetch_examples env (arg_version a) we) = Returned True then 1 else 0) = tt
              then 0 else 1)"
proof -
  define B where "B = fst (fetch_examples env (arg_version a) we)"
  have r: "fst (fetch_examples env (arg_version a) W) = B" for W
    unfolding B_def by (rule fetch_examples_fst)
  from assms show ?thesis
    unfolding B_def [symmetric]
    by (simp add: main_examples_index_def split_def r split: outcome.splits if_splits)
qed

lemma main_examples_index_last_call:
  assumes "fst (main_examples_index env a sc tt w) = Returned c"
  shows "\<exists>cs. calls (snd (main_examples_index env a sc tt w)) =
           cs @ [WriteText Readme (index_content (arg_crates a) (arg_include_examples a))]"
  using assms
  by (simp add: main_examples_index_def split_def split: outcome.splits if_splits)

lemma main_examples_index_total:
  assumes "fst (main_examples_index env a sc tt w) = Returned c"
  shows "\<exists>n. MsgCompleted n tt \<in> set (console (snd (main_examples_index env a sc tt w)))"
  using assms main_summary_console
  by (simp add: main_examples_index_def split_def split: outcome.splits if_splits) blast+

lemma main_examples_index_readme:
  assumes "fst (main_examples_index env a sc tt w) = Returned c"
  shows "Readme \<in> fs (snd (main_examples_index env a sc tt w))"
  using assms create_index_readme
  by (simp add: main_examples_index_def split_def split: outcome.splits if_splits)

text \<open>A run of \<^verbatim>\<open>main\<close> that reaches its exit went through steps 3 and 4.\<close>

lemma main_returned:
  assumes "fst (main env a w) = Returned c"
  shows "\<exists>sc w5. main env a w =
           main_examples_index env a sc (2 + (if arg_include_examples a then 1 else 0)) w5"
  using assms
  by (simp add: main_def Let_def split_def split: outcome.splits io.splits if_splits) blast+

subsection \<open>Unfolding a concrete run\<close>

lemmas run_defs = main_def main_examples_index_def main_summary_def create_index_def
  fetch_examples_def fetch_examples_checkout_def fetch_examples_except_def
  rmtree_ignore_errors_def convert_cargo_docs_def build_cargo_docs_def clone_iced_book_def
  say_def did_def create_def remove_def tag_of_def Let_def

lemmas input_defs = world_empty_def args_default_def args_with_examples_def env_all_ok_def
  env_cargo_doc_fails_def env_no_doc_dir_def env_layershell_undocumented_def
  env_clones_fail_def env_tag_missing_def env_copy_examples_raises_def items_sample_def
  env_book_without_src_def env_nothing_built_def

lemma join_lines_simps [simp]:
  "join_lines [x] = x" "join_lines [x, y] = x @ CHR 0x0A # y"
  by (simp_all add: join_lines_def)
section \<open>The claims\<close>

subsection \<open>The converter\<close>




subsection \<open>The manifest\<close>



subsection \<open>The fallback of \<^verbatim>\<open>fetch_examples\<close>\<close>


text \<open>The tag is missing and the fallback works: the stage returns \<^verbatim>\<open>True\<close> after two clones.\<close>

lemma fetch_examples_fallback_succeeds:
  "fst (fetch_examples env_tag_missing ''0.13.1'' world_empty) = Returned True \<and>
   clone_attempts (calls (snd (fetch_examples env_tag_missing ''0.13.1'' world_empty))) =
     [Some ''v0.13.1'', None]"
  by (simp add: run_defs input_defs)

subsection \<open>The exit code\<close>

text \<open>
  Claim C1, as the code has it. When \<^verbatim>\<open>main\<close> reaches its exit, the code is 0 exactly when
  \<^verbatim>\<open>clone_iced_book\<close> returned \<^verbatim>\<open>True\<close>, \<^verbatim>\<open>build_cargo_docs\<close> returned \<^verbatim>\<open>True\<close> and, if the
  examples were asked for, \<^verbatim>\<open>fetch_examples\<close> returned \<^verbatim>\<open>True\<close>; otherwise it is 1. What
  these three return does not depend on the world they start in. The results of
  \<^verbatim>\<open>convert_cargo_docs\<close> have no part in it.
\<close>

theorem main_exit_code:
  assumes "main env a w = (Returned c, w')"
  shows "c = (if fst (clone_iced_book env wb) \<and>
                 fst (build_cargo_docs env (arg_crates a) (arg_version a)
                        (arg_layershell_version a) wc) = Returned True \<and>
                 (arg_include_examples a \<longrightarrow>
                    fst (fetch_examples env (arg_version a) we) = Returned True)
              then 0 else 1)"
proof -
  define B1 where "B1 = fst (clone_iced_book env wb)"
  define B3 where "B3 = fst (fetch_examples env (arg_version a) we)"
  have r1: "fst (clone_iced_book env W) = B1" for W
    unfolding B1_def by (simp add: clone_iced_book_ok)
  have mei: "c = (if sc + (if arg_include_examples a \<and> B3 = Returned True then 1 else 0) = tt
                  then 0 else 1)"
    if "fst (main_examples_index env a sc tt W) = Returned c" for sc tt W
    unfolding B3_def using that by (rule main_examples_index_exit)
  from assms have "fst (main env a w) = Returned c" by simp
  then show ?thesis
    unfolding B1_def [symmetric] B3_def [symmetric]
    by (auto simp add: main_def Let_def split_def r1 build_cargo_docs_result
        split: outcome.splits io.splits if_splits dest!: mei)
qed

text \<open>Everything works and the examples are asked for: the exit code is 0.\<close>

theorem main_exit_code_witness:
  "main env_all_ok args_with_examples world_empty =
     (Returned 0, snd (main env_all_ok args_with_examples world_empty)) \<and>
   fst (clone_iced_book env_all_ok world_empty) \<and>
   fst (build_cargo_docs env_all_ok (arg_crates args_with_examples)
          (arg_version args_with_examples) (arg_layershell_version args_with_examples)
          world_empty) = Returned True \<and>
   arg_include_examples args_with_examples \<and>
   fst (fetch_examples env_all_ok (arg_version args_with_examples) world_empty) = Returned True"
proof -
  have "fst (main env_all_ok args_with_examples world_empty) = Returned 0"
    by (simp add: run_defs input_defs)
  then have h: "main env_all_ok args_with_examples world_empty =
                  (Returned 0, snd (main env_all_ok args_with_examples world_empty))"
    by (simp add: prod_eq_iff)
  have i: "arg_include_examples args_with_examples"
    by (simp add: input_defs)
  show ?thesis
    using h i main_exit_code [OF h, of world_empty world_empty world_empty]
    by (simp split: if_splits)
qed

text \<open>
  The claim as it is written fails: with the default arguments, a build that works and no
  documentation for \<^verbatim>\<open>iced_layershell\<close>, the conversion of that crate returns \<^verbatim>\<open>False\<close> and
  the exit code is 0.
\<close>

theorem exit_zero_despite_failed_conversion:
  "\<not> fst (convert_cargo_docs env_layershell_undocumented ''iced_layershell'' world_empty) \<and>
   ''iced_layershell'' \<in> set (arg_crates args_default) \<and>
   fst (main env_layershell_undocumented args_default world_empty) = Returned 0"
  by (simp add: run_defs input_defs)

subsection \<open>What is reported per documentation unit\<close>

text \<open>
  Claim C2, as the code has it. The script has one retrieval for all crates together
  (\<^verbatim>\<open>build_cargo_docs\<close>) and its summary counts 2 tasks, 3 with the examples, whatever the
  number of crates. When \<^verbatim>\<open>main\<close> reaches its exit, the verdicts on conversions that the
  run has printed are these: if the build returned \<^verbatim>\<open>True\<close>, one verdict per entry of the
  crate list, in the order of the list, each with the result of \<^verbatim>\<open>convert_cargo_docs\<close> for
  that crate; otherwise none.
\<close>

theorem conversion_verdicts_follow_crate_list:
  assumes "main env a w = (Returned c, w')"
  shows "unit_outcomes (console w') = unit_outcomes (console w) @
           (if fst (build_cargo_docs env (arg_crates a) (arg_version a)
                      (arg_layershell_version a) wb) = Returned True
            then map (\<lambda>crate. (crate, fst (convert_cargo_docs env crate wc))) (arg_crates a)
            else []) \<and>
         (\<exists>n. MsgCompleted n (2 + (if arg_include_examples a then 1 else 0)) \<in> set (console w'))"
proof -
  from assms have r: "fst (main env a w) = Returned c" and w': "w' = snd (main env a w)"
    by simp_all
  have "unit_outcomes (console (snd (main env a w))) = unit_outcomes (console w) @
           (if fst (build_cargo_docs env (arg_crates a) (arg_version a)
                      (arg_layershell_version a) wb) = Returned True
            then map (\<lambda>crate. (crate, fst (convert_cargo_docs env crate wc))) (arg_crates a)
            else [])"
    using r
    by (simp add: main_def Let_def split_def build_cargo_docs_result
        convert_crates_outcomes [where wx = wc]
        split: outcome.splits io.splits if_splits)
  moreover have "\<exists>n. MsgCompleted n (2 + (if arg_include_examples a then 1 else 0))
                   \<in> set (console (snd (main env a w)))"
  proof -
    from r obtain sc w5 where
      m: "main env a w =
            main_examples_index env a sc (2 + (if arg_include_examples a then 1 else 0)) w5"
      using main_returned by blast
    with r show ?thesis
      using main_examples_index_total [of env a sc _ w5 c] by simp
  qed
  ultimately show ?thesis by (simp add: w')
qed

text \<open>
  The build works and \<^verbatim>\<open>iced_layershell\<close> has no documentation: five verdicts in the order
  of the list, the last one a failure, and a summary over 2 tasks.
\<close>

theorem conversion_verdicts_follow_crate_list_witness:
  "main env_layershell_undocumented args_default world_empty =
     (Returned 0, snd (main env_layershell_undocumented args_default world_empty)) \<and>
   unit_outcomes (console (snd (main env_layershell_undocumented args_default world_empty))) =
     [(''iced'', True), (''iced_core'', True), (''iced_widget'', True),
      (''iced_runtime'', True), (''iced_layershell'', False)] \<and>
   MsgCompleted 2 2 \<in>
     set (console (snd (main env_layershell_undocumented args_default world_empty)))"
proof -
  have "fst (main env_layershell_undocumented args_default world_empty) = Returned 0"
    by (simp add: run_defs input_defs)
  then have h: "main env_layershell_undocumented args_default world_empty =
                  (Returned 0, snd (main env_layershell_undocumented args_default world_empty))"
    by (simp add: prod_eq_iff)
  have t: "MsgCompleted 2 2 \<in>
     set (console (snd (main env_layershell_undocumented args_default world_empty)))"
    by (simp add: run_defs input_defs)
  have b: "fst (build_cargo_docs env_layershell_undocumented (arg_crates args_default)
                  (arg_version args_default) (arg_layershell_version args_default) world_empty)
             = Returned True"
    by (simp add: build_cargo_docs_result input_defs)
  have u: "unit_outcomes (console world_empty) = []"
    by (simp add: world_empty_def)
  show ?thesis
    using h t conversion_verdicts_follow_crate_list [OF h, of world_empty world_empty]
    by (simp add: b u) (simp add: convert_cargo_docs_ok input_defs)
qed

text \<open>
  The claim as it is written fails: when \<^verbatim>\<open>cargo doc\<close> leaves no \<^verbatim>\<open>target/doc\<close>, the run
  ends with no verdict on the conversion of any of the five crates asked for.
\<close>

theorem no_verdicts_after_failed_build:
  "map fst (unit_outcomes (console (snd (main env_no_doc_dir args_default world_empty))))
     \<noteq> arg_crates args_default"
  by (simp add: run_defs input_defs)

text \<open>
  Claim C3, as the code has it. When \<^verbatim>\<open>build_cargo_docs\<close> does not return \<^verbatim>\<open>True\<close>, the run
  calls \<^verbatim>\<open>convert_directory\<close> for no crate and prints no line about the conversion of any
  crate: none is reported as converted, and none as skipped. When the build worked and
  the doc directory of a crate is missing, \<^verbatim>\<open>convert_cargo_docs\<close> prints that no docs were
  found and returns \<^verbatim>\<open>False\<close> without calling \<^verbatim>\<open>convert_directory\<close>.
\<close>

theorem no_conversion_after_failed_build:
  "(fst (build_cargo_docs env (arg_crates a) (arg_version a) (arg_layershell_version a) wb)
      \<noteq> Returned True \<longrightarrow>
      convert_calls (calls (snd (main env a w))) = convert_calls (calls w) \<and>
      conversion_lines (console (snd (main env a w))) = conversion_lines (console w) \<and>
      unit_outcomes (console (snd (main env a w))) = unit_outcomes (console w)) \<and>
   (\<not> e_crate_has_docs env x \<longrightarrow>
      convert_cargo_docs env x w = (False, say (MsgNoDocsFound x) w))"
  by (simp add: main_def Let_def split_def build_cargo_docs_result convert_cargo_docs_def
      split: outcome.splits io.splits)

text \<open>\<^verbatim>\<open>cargo doc\<close> fails and no crate has a doc directory.\<close>

theorem no_conversion_after_failed_build_witness:
  "fst (build_cargo_docs env_nothing_built (arg_crates args_default)
          (arg_version args_default) (arg_layershell_version args_default) world_empty)
     = Returned False \<and>
   convert_calls (calls (snd (main env_nothing_built args_default world_empty))) = [] \<and>
   conversion_lines (console (snd (main env_nothing_built args_default world_empty))) = [] \<and>
   \<not> e_crate_has_docs env_nothing_built ''iced'' \<and>
   convert_cargo_docs env_nothing_built ''iced'' world_empty =
     (False, say (MsgNoDocsFound ''iced'') world_empty)"
proof -
  have b: "fst (build_cargo_docs env_nothing_built (arg_crates args_default)
                  (arg_version args_default) (arg_layershell_version args_default) world_empty)
             = Returned False"
    by (simp add: build_cargo_docs_result input_defs)
  have d: "\<not> e_crate_has_docs env_nothing_built ''iced''"
    by (simp add: input_defs)
  have e: "convert_calls (calls world_empty) = []" "conversion_lines (console world_empty) = []"
    by (simp_all add: world_empty_def)
  show ?thesis
    using b d e
      no_conversion_after_failed_build
        [of env_nothing_built args_default world_empty world_empty "''iced''"]
    by simp
qed

text \<open>
  The claim as it is written fails: \<^verbatim>\<open>cargo doc\<close> exits with 101, the build returns
  \<^verbatim>\<open>False\<close>, and the console of the run has no line about the conversion of \<^verbatim>\<open>iced\<close>, so
  nothing records it as skipped.
\<close>

theorem failed_build_records_no_skip:
  "fst (build_cargo_docs env_cargo_doc_fails (arg_crates args_default)
          (arg_version args_default) (arg_layershell_version args_default) world_empty)
     = Returned False \<and>
   ''iced'' \<in> set (arg_crates args_default) \<and>
   ''iced'' \<notin> set (conversion_lines
                     (console (snd (main env_cargo_doc_fails args_default world_empty))))"
  by (simp add: run_defs input_defs)

subsection \<open>Scratch directories\<close>

text \<open>
  Claim C7 fails on the code. With the default arguments and a \<^verbatim>\<open>cargo doc\<close> that exits
  with 101, the run ends with exit code 1 and \<^verbatim>\<open>cargo-temp\<close> still in the output
  directory: the clean-up in \<^verbatim>\<open>main\<close> is inside the branch of a successful build. When the
  cloned book has no \<^verbatim>\<open>src\<close> directory, \<^verbatim>\<open>clone_iced_book\<close> returns early and \<^verbatim>\<open>book-src\<close>
  stays.
\<close>

theorem scratch_left_after_failure:
  "fst (main env_cargo_doc_fails args_default world_empty) = Returned 1 \<and>
   CargoTemp \<in> fs (snd (main env_cargo_doc_fails args_default world_empty)) \<and>
   fst (main env_book_without_src args_default world_empty) = Returned 1 \<and>
   BookSrc \<in> fs (snd (main env_book_without_src args_default world_empty))"
  by (simp add: run_defs input_defs)

subsection \<open>The index\<close>

text \<open>
  Claim C8, as the code has it. When \<^verbatim>\<open>main\<close> reaches its exit, the last call it made to a
  collaborator is the write of \<^verbatim>\<open>README.md\<close>, so the index comes after every stage, and
  the file exists. Its text is made from the request: the header with the book section
  and one line per crate of the list are there whether or not these outputs exist. The
  examples section is there when the examples were asked for and \<^verbatim>\<open>fetch_examples\<close> returned
  \<^verbatim>\<open>True\<close>, and only when they were asked for.
\<close>

theorem index_written_last:
  assumes "main env a w = (Returned c, w')"
  shows "calls w' \<noteq> [] \<and> Readme \<in> fs w' \<and>
         (\<exists>has_examples.
            last (calls w') =
              WriteText Readme
                (index_header @ concat (map index_crate_line (arg_crates a)) @
                 (if has_examples then index_examples else []) @ index_footer) \<and>
            (arg_include_examples a \<and>
               fst (fetch_examples env (arg_version a) we) = Returned True \<longrightarrow> has_examples) \<and>
            (has_examples \<longrightarrow> arg_include_examples a))"
proof -
  from assms have "fst (main env a w) = Returned c" by simp
  then obtain sc w5 where
    m: "main env a w =
          main_examples_index env a sc (2 + (if arg_include_examples a then 1 else 0)) w5"
    using main_returned by blast
  with assms have
    r: "fst (main_examples_index env a sc (2 + (if arg_include_examples a then 1 else 0)) w5)
          = Returned c"
    and w': "w' = snd (main_examples_index env a sc
                         (2 + (if arg_include_examples a then 1 else 0)) w5)"
    by simp_all
  from main_examples_index_last_call [OF r] obtain cs where
    cs: "calls w' =
           cs @ [WriteText Readme (index_content (arg_crates a) (arg_include_examples a))]"
    unfolding w' by blast
  from main_examples_index_readme [OF r] have "Readme \<in> fs w'"
    unfolding w' .
  moreover from cs have "calls w' \<noteq> []" by simp
  moreover from cs have
    "last (calls w') =
       WriteText Readme
         (index_header @ concat (map index_crate_line (arg_crates a)) @
          (if arg_include_examples a then index_examples else []) @ index_footer)"
    by (simp add: index_content_def)
  ultimately show ?thesis by blast
qed

text \<open>Everything works and the examples are asked for: the index has the section.\<close>

theorem index_written_last_witness:
  "main env_all_ok args_with_examples world_empty =
     (Returned 0, snd (main env_all_ok args_with_examples world_empty)) \<and>
   arg_include_examples args_with_examples \<and>
   fst (fetch_examples env_all_ok (arg_version args_with_examples) world_empty) =
     Returned True \<and>
   last (calls (snd (main env_all_ok args_with_examples world_empty))) =
     WriteText Readme
       (index_header @ concat (map index_crate_line (arg_crates args_with_examples)) @
        index_examples @ index_footer) \<and>
   Readme \<in> fs (snd (main env_all_ok args_with_examples world_empty))"
proof -
  have "fst (main env_all_ok args_with_examples world_empty) = Returned 0"
    by (simp add: run_defs input_defs)
  then have h: "main env_all_ok args_with_examples world_empty =
                  (Returned 0, snd (main env_all_ok args_with_examples world_empty))"
    by (simp add: prod_eq_iff)
  have i: "arg_include_examples args_with_examples"
    by (simp add: input_defs)
  have f: "fst (fetch_examples env_all_ok (arg_version args_with_examples) world_empty) =
             Returned True"
    by (simp add: run_defs input_defs)
  show ?thesis
    using h i f index_written_last [OF h, of world_empty]
    by auto
qed

text \<open>
  The claim as it is written fails: the examples are asked for, both clones fail,
  \<^verbatim>\<open>fetch_examples\<close> returns \<^verbatim>\<open>False\<close> and there is no \<^verbatim>\<open>examples\<close> directory, yet the index
  that is written has the examples section.
\<close>

theorem index_lists_examples_that_are_absent:
  "fst (fetch_examples env_clones_fail (arg_version args_with_examples) world_empty)
     = Returned False \<and>
   Examples \<notin> fs (snd (main env_clones_fail args_with_examples world_empty)) \<and>
   last (calls (snd (main env_clones_fail args_with_examples world_empty))) =
     WriteText Readme
       (index_header @ concat (map index_crate_line (arg_crates args_with_examples)) @
        index_examples @ index_footer)"
  by (simp add: run_defs input_defs index_content_def)

subsection \<open>Faults that leave a stage\<close>

text \<open>
  Claim C9 fails on the code. \<^verbatim>\<open>fetch_examples\<close> catches \<^verbatim>\<open>CalledProcessError\<close> only. With
  the examples asked for and a \<^verbatim>\<open>copytree\<close> that raises, the exception leaves
  \<^verbatim>\<open>fetch_examples\<close> and then \<^verbatim>\<open>main\<close>: no index is written, no summary is printed and the
  run does not reach its exit.
\<close>

theorem copytree_fault_escapes_main:
  "fst (fetch_examples env_copy_examples_raises (arg_version args_with_examples) world_empty)
     = Raised \<and>
   fst (main env_copy_examples_raises args_with_examples world_empty) = Raised \<and>
   Readme \<notin> fs (snd (main env_copy_examples_raises args_with_examples world_empty)) \<and>
   MsgSummary \<notin> set (console (snd (main env_copy_examples_raises args_with_examples
                                     world_empty)))"
  by (simp add: run_defs input_defs)

end
